theory Spec2Isabelle
  imports Complex_Main "HOL-Library.Code_Target_Nat"
begin

section \<open>Strings as the script sees them\<close>

text \<open>
  Strings are lists of 8-bit characters, one \<^typ>\<open>char\<close> per code unit (the code units
  0 to 255, read as Latin-1). Keys of JavaScript objects are kept as lists of UTF-16 code
  units, since the key of an option may carry any code unit. The helpers below
  are the string methods the tagger script calls: \<^verbatim>\<open>trim\<close>, \<^verbatim>\<open>replace(/\s+/g, ' ')\<close>,
  \<^verbatim>\<open>replace(/"/g, '\\"')\<close>, \<^verbatim>\<open>toLowerCase\<close>, \<^verbatim>\<open>startsWith\<close>, \<^verbatim>\<open>join\<close>,
  \<^verbatim>\<open>String.fromCharCode\<close> and the conversion of a number inside a template literal.
\<close>

definition dq :: string where
  "dq = [CHR 0x22]"

definition bslash :: string where
  "bslash = [CHR 0x5C]"

text \<open>White space of \<^verbatim>\<open>\s\<close> and of \<^verbatim>\<open>trim\<close> within the 8-bit range: TAB, LF, VT, FF, CR,
  SPACE and NBSP.\<close>

definition isSpace :: "char \<Rightarrow> bool" where
  "isSpace c = (c \<in> set [CHR 0x09, CHR 0x0A, CHR 0x0B, CHR 0x0C, CHR 0x0D, CHR 0x20, CHR 0xA0])"

definition trim :: "string \<Rightarrow> string" where
  "trim s = rev (dropWhile isSpace (rev (dropWhile isSpace s)))"

text \<open>\<^verbatim>\<open>s.replace(/\s+/g, ' ')\<close>: every maximal run of white space becomes one space.\<close>

function collapseSpaces :: "string \<Rightarrow> string" where
  "collapseSpaces [] = []"
| "collapseSpaces (c # cs) =
     (if isSpace c then CHR 0x20 # collapseSpaces (dropWhile isSpace cs)
      else c # collapseSpaces cs)"
  by pat_completeness auto
termination
  by (relation "measure length") (auto simp: le_imp_less_Suc length_dropWhile_le)

text \<open>\<^verbatim>\<open>s.replace(/"/g, '\\"')\<close>: a backslash is put before every double quote.\<close>

definition escapeQuotes :: "string \<Rightarrow> string" where
  "escapeQuotes s = concat (map (\<lambda>c. if c = CHR 0x22 then bslash @ dq else [c]) s)"

definition upperLetters :: string where
  "upperLetters = ''ABCDEFGHIJKLMNOPQRSTUVWXYZ''"

definition lowerLetters :: string where
  "lowerLetters = ''abcdefghijklmnopqrstuvwxyz''"

definition digits :: string where
  "digits = ''0123456789''"

text \<open>The capital letters of the code units 192 to 222 (all but the multiplication sign,
  215) and their small letters, 32 code units further on.\<close>

definition latinCapitals :: string where
  "latinCapitals =
     [CHR 0xC0, CHR 0xC1, CHR 0xC2, CHR 0xC3, CHR 0xC4, CHR 0xC5, CHR 0xC6, CHR 0xC7,
      CHR 0xC8, CHR 0xC9, CHR 0xCA, CHR 0xCB, CHR 0xCC, CHR 0xCD, CHR 0xCE, CHR 0xCF,
      CHR 0xD0, CHR 0xD1, CHR 0xD2, CHR 0xD3, CHR 0xD4, CHR 0xD5, CHR 0xD6,
      CHR 0xD8, CHR 0xD9, CHR 0xDA, CHR 0xDB, CHR 0xDC, CHR 0xDD, CHR 0xDE]"

definition latinSmalls :: string where
  "latinSmalls =
     [CHR 0xE0, CHR 0xE1, CHR 0xE2, CHR 0xE3, CHR 0xE4, CHR 0xE5, CHR 0xE6, CHR 0xE7,
      CHR 0xE8, CHR 0xE9, CHR 0xEA, CHR 0xEB, CHR 0xEC, CHR 0xED, CHR 0xEE, CHR 0xEF,
      CHR 0xF0, CHR 0xF1, CHR 0xF2, CHR 0xF3, CHR 0xF4, CHR 0xF5, CHR 0xF6,
      CHR 0xF8, CHR 0xF9, CHR 0xFA, CHR 0xFB, CHR 0xFC, CHR 0xFD, CHR 0xFE]"

text \<open>\<^verbatim>\<open>toLowerCase\<close>: every capital letter among the code units 0 to 255 becomes its
  small letter, every other code unit stays.\<close>

definition toLowerChar :: "char \<Rightarrow> char" where
  "toLowerChar c =
     (case map_of (zip (upperLetters @ latinCapitals) (lowerLetters @ latinSmalls)) c of
        Some l \<Rightarrow> l
      | None \<Rightarrow> c)"

definition toLowerCase :: "string \<Rightarrow> string" where
  "toLowerCase s = map toLowerChar s"

definition startsWith :: "string \<Rightarrow> string \<Rightarrow> bool" where
  "startsWith s p = (take (length p) s = p)"

text \<open>\<^verbatim>\<open>path.join(sep)\<close>.\<close>

fun join :: "string \<Rightarrow> string list \<Rightarrow> string" where
  "join sep [] = []"
| "join sep [x] = x"
| "join sep (x # y # ys) = x @ sep @ join sep (y # ys)"

text \<open>A non-negative integer printed in decimal, as a template literal prints it.\<close>

function decimal :: "nat \<Rightarrow> string" where
  "decimal n = (if n < 10 then [digits ! n] else decimal (n div 10) @ [digits ! (n mod 10)])"
  by pat_completeness auto
termination
  by (relation "measure id") auto

text \<open>The UTF-16 code units of a string of 8-bit characters.\<close>

definition codeUnits :: "string \<Rightarrow> nat list" where
  "codeUnits s = map of_char s"

text \<open>\<^verbatim>\<open>String.fromCharCode(n)\<close>: the string of the one code unit \<open>n\<close>, reduced modulo
  65536.\<close>

definition fromCharCode :: "nat \<Rightarrow> nat list" where
  "fromCharCode n = [n mod 65536]"

text \<open>The test \<^verbatim>\<open>/^[a-zA-Z][\w-]*$/.test(s)\<close>.\<close>

definition isLetter :: "char \<Rightarrow> bool" where
  "isLetter c = (c \<in> set upperLetters \<or> c \<in> set lowerLetters)"

definition isWordOrHyphen :: "char \<Rightarrow> bool" where
  "isWordOrHyphen c = (isLetter c \<or> c \<in> set digits \<or> c = CHR ''_'' \<or> c = CHR ''-'')"

fun validIdentifier :: "string \<Rightarrow> bool" where
  "validIdentifier [] = False"
| "validIdentifier (c # cs) = (isLetter c \<and> list_all isWordOrHyphen cs)"

section \<open>The document as the script reads it\<close>

text \<open>
  An element handle carries the properties the script reads from it, its child nodes, and
  its \<^verbatim>\<open>parentElement\<close> and \<^verbatim>\<open>previousElementSibling\<close> links. A property that is
  absent or undefined in the browser is the empty string here; every test the script makes
  on such a property is a truthiness test, which the empty string fails as well.
\<close>

record props =
  tagName :: string
  elemId :: string
  elemName :: string
  elemType :: string
  className :: string
  attributes :: "(string \<times> string) list"
  placeholder :: string
  elemValue :: string
  disabled :: bool
  rectWidth :: real
  rectHeight :: real
  styleDisplay :: string
  styleVisibility :: string
  styleOpacity :: string
  isDocumentBody :: bool

datatype node = TextNode string | ElementNode element | OtherNode
and element =
  Element (props: props) (childNodes: "node list")
    (parentElement: "element option") (previousElementSibling: "element option")

text \<open>\<^verbatim>\<open>el.getAttribute(name)\<close>: \<open>None\<close> is JavaScript's \<^verbatim>\<open>null\<close>.\<close>

definition getAttribute :: "element \<Rightarrow> string \<Rightarrow> string option" where
  "getAttribute el n = map_of (attributes (props el)) n"

definition hasAttribute :: "element \<Rightarrow> string \<Rightarrow> bool" where
  "hasAttribute el n = (getAttribute el n \<noteq> None)"

text \<open>\<^verbatim>\<open>el.textContent\<close>: the text of all descendant text nodes, in document order.\<close>

fun textContent :: "element \<Rightarrow> string" and nodeText :: "node \<Rightarrow> string" where
  "textContent (Element p cs par prev) = concat (map nodeText cs)"
| "nodeText (TextNode s) = s"
| "nodeText (ElementNode e) = textContent e"
| "nodeText OtherNode = []"

text \<open>\<^verbatim>\<open>el.querySelectorAll('option')\<close>: the descendant option elements, in document
  order.\<close>

fun optionsOf :: "element \<Rightarrow> element list" and optionsOfNode :: "node \<Rightarrow> element list" where
  "optionsOf (Element p cs par prev) = concat (map optionsOfNode cs)"
| "optionsOfNode (TextNode s) = []"
| "optionsOfNode (ElementNode e) =
     (if toLowerCase (tagName (props e)) = ''option'' then [e] else []) @ optionsOf e"
| "optionsOfNode OtherNode = []"

text \<open>
  What the script asks of the live document: \<^verbatim>\<open>document.querySelectorAll(s).length\<close>,
  with \<open>None\<close> when the call throws on a selector the query engine rejects, and
  \<^verbatim>\<open>document.getElementById\<close>.
\<close>

record document =
  querySelectorAll :: "string \<Rightarrow> nat option"
  getElementById :: "string \<Rightarrow> element option"

section \<open>Helper functions of performTagging\<close>

definition directTextOfNode :: "node \<Rightarrow> string" where
  "directTextOfNode n = (case n of TextNode s \<Rightarrow> trim s | _ \<Rightarrow> [])"

definition getDirectText :: "element \<Rightarrow> string" where
  "getDirectText el = collapseSpaces (trim (concat (map directTextOfNode (childNodes el))))"

text \<open>\<^verbatim>\<open>getDirectText\<close> on a handle that may be \<^verbatim>\<open>null\<close>.\<close>

definition getDirectTextOpt :: "element option \<Rightarrow> string" where
  "getDirectTextOpt e = (case e of None \<Rightarrow> [] | Some el \<Rightarrow> getDirectText el)"

definition isUnique :: "document \<Rightarrow> string \<Rightarrow> bool" where
  "isUnique doc selector = (querySelectorAll doc selector = Some 1)"

fun nthChildLoop :: "element option \<Rightarrow> nat \<Rightarrow> nat" where
  "nthChildLoop None index = index"
| "nthChildLoop (Some (Element p cs par prev)) index = nthChildLoop prev (Suc index)"

definition getNthChildIndex :: "element \<Rightarrow> nat" where
  "getNthChildIndex el = nthChildLoop (previousElementSibling el) 1"

subsection \<open>extractContext\<close>

record elem_context =
  parent_text :: string
  parent_tag :: string
  parent_classes :: string
  sibling_text :: string
  container_id :: string
  aria_context :: string

definition emptyContext :: elem_context where
  "emptyContext = \<lparr>parent_text = [], parent_tag = [], parent_classes = [],
     sibling_text = [], container_id = [], aria_context = []\<rparr>"

text \<open>The first loop of \<^verbatim>\<open>extractContext\<close>; \<open>elText\<close> is \<^verbatim>\<open>getDirectText(el)\<close>, which the
  script recomputes in every round.\<close>

fun parentLoop :: "string \<Rightarrow> element option \<Rightarrow> nat \<Rightarrow> elem_context \<Rightarrow> elem_context" where
  "parentLoop elText None depth ctx = ctx"
| "parentLoop elText (Some (Element p cs par prev)) depth ctx =
     (if depth < 5 then
        (if getDirectText (Element p cs par prev) \<noteq> []
            \<and> getDirectText (Element p cs par prev) \<noteq> elText
         then
           (if elemId p \<noteq> []
            then ctx\<lparr>parent_text := getDirectText (Element p cs par prev),
                     parent_tag := toLowerCase (tagName p),
                     parent_classes := className p,
                     container_id := elemId p\<rparr>
            else ctx\<lparr>parent_text := getDirectText (Element p cs par prev),
                     parent_tag := toLowerCase (tagName p),
                     parent_classes := className p\<rparr>)
         else parentLoop elText par (Suc depth)
                (if container_id ctx = [] \<and> elemId p \<noteq> []
                 then ctx\<lparr>container_id := elemId p\<rparr> else ctx))
      else ctx)"

text \<open>The second loop; the result is \<^verbatim>\<open>context.sibling_text\<close>.\<close>

fun siblingLoop :: "element option \<Rightarrow> nat \<Rightarrow> string" where
  "siblingLoop None siblingDepth = []"
| "siblingLoop (Some (Element p cs par prev)) siblingDepth =
     (if siblingDepth < 3 then
        (if getDirectText (Element p cs par prev) \<noteq> []
         then getDirectText (Element p cs par prev)
         else siblingLoop prev (Suc siblingDepth))
      else [])"

text \<open>An attribute read by \<^verbatim>\<open>getAttribute\<close> and tested for truthiness: \<^verbatim>\<open>null\<close> and the
  empty string both fail the test.\<close>

definition attrOrEmpty :: "element \<Rightarrow> string \<Rightarrow> string" where
  "attrOrEmpty el n = (case getAttribute el n of None \<Rightarrow> [] | Some v \<Rightarrow> v)"

definition ariaContext :: "document \<Rightarrow> element \<Rightarrow> string" where
  "ariaContext doc el =
     (if attrOrEmpty el ''aria-label'' \<noteq> [] then attrOrEmpty el ''aria-label''
      else if attrOrEmpty el ''aria-labelledby'' \<noteq> [] then
        (case getElementById doc (attrOrEmpty el ''aria-labelledby'') of
           None \<Rightarrow> []
         | Some labelElement \<Rightarrow> getDirectText labelElement)
      else [])"

definition extractContext :: "document \<Rightarrow> element \<Rightarrow> elem_context" where
  "extractContext doc el =
     (parentLoop (getDirectText el) (parentElement el) 0 emptyContext)
       \<lparr>sibling_text := siblingLoop (previousElementSibling el) 0,
        aria_context := ariaContext doc el\<rparr>"

subsection \<open>buildPositionBasedSelector\<close>

definition isBody :: "element option \<Rightarrow> bool" where
  "isBody e = (case e of None \<Rightarrow> False | Some el \<Rightarrow> isDocumentBody (props el))"

text \<open>The loop of \<^verbatim>\<open>buildPositionBasedSelector\<close>; \<open>path\<close> grows at the front, as
  \<^verbatim>\<open>path.unshift\<close> does. \<^verbatim>\<open>current\<close> is the element itself or one of its
  \<^verbatim>\<open>parentElement\<close>s, so the test of its node type always passes.\<close>

fun positionLoop :: "document \<Rightarrow> element option \<Rightarrow> nat \<Rightarrow> string list \<Rightarrow> string list" where
  "positionLoop doc None depth path = path"
| "positionLoop doc (Some (Element p cs par prev)) depth path =
     (if depth < 5 then
        (if elemId p \<noteq> [] \<and> validIdentifier (elemId p) then (''#'' @ elemId p) # path
         else if isBody par
                 \<or> isUnique doc (join '' > ''
                      ((toLowerCase (tagName p) @ '':nth-child(''
                          @ decimal (getNthChildIndex (Element p cs par prev)) @ '')'') # path))
         then (toLowerCase (tagName p) @ '':nth-child(''
                 @ decimal (getNthChildIndex (Element p cs par prev)) @ '')'') # path
         else positionLoop doc par (Suc depth)
                ((toLowerCase (tagName p) @ '':nth-child(''
                    @ decimal (getNthChildIndex (Element p cs par prev)) @ '')'') # path))
      else path)"

definition buildPositionBasedSelector :: "document \<Rightarrow> element \<Rightarrow> string" where
  "buildPositionBasedSelector doc el = join '' > '' (positionLoop doc (Some el) 0 [])"

subsection \<open>buildContextualSelector\<close>

definition hasText :: "string \<Rightarrow> string \<Rightarrow> string" where
  "hasText tg escaped = tg @ '':has-text('' @ dq @ escaped @ dq @ '')''"

text \<open>The loop of \<^verbatim>\<open>buildContextualSelector\<close>; \<open>None\<close> when it ends without a
  \<^verbatim>\<open>return\<close>.\<close>

fun contextualLoop :: "string \<Rightarrow> string \<Rightarrow> element option \<Rightarrow> nat \<Rightarrow> string option" where
  "contextualLoop tg elementText None depth = None"
| "contextualLoop tg elementText (Some (Element p cs par prev)) depth =
     (if depth < 5 then
        (if getDirectText (Element p cs par prev) \<noteq> []
            \<and> getDirectText (Element p cs par prev) \<noteq> elementText
         then Some (hasText (toLowerCase (tagName p))
                      (escapeQuotes (getDirectText (Element p cs par prev)))
                    @ '' >> '' @ hasText tg (escapeQuotes elementText))
         else if elemId p \<noteq> []
         then Some (''#'' @ elemId p @ '' >> '' @ hasText tg (escapeQuotes elementText))
         else contextualLoop tg elementText par (Suc depth))
      else None)"

definition buildContextualSelector :: "document \<Rightarrow> element \<Rightarrow> string \<Rightarrow> string" where
  "buildContextualSelector doc el elementText =
     (case contextualLoop (toLowerCase (tagName (props el))) elementText (parentElement el) 0 of
        Some contextSelector \<Rightarrow> contextSelector
      | None \<Rightarrow> buildPositionBasedSelector doc el)"

subsection \<open>getUniversalSelector\<close>

definition attrSelector :: "string \<Rightarrow> string \<Rightarrow> string" where
  "attrSelector n v = ''['' @ n @ ''='' @ dq @ v @ dq @ '']''"

text \<open>Strategies 1 to 3 and 5 to 6: \<open>Some\<close> is the selector the strategy returns, \<open>None\<close>
  means the script goes on to the next strategy.\<close>

definition idStrategy :: "document \<Rightarrow> element \<Rightarrow> string option" where
  "idStrategy doc el =
     (if elemId (props el) \<noteq> [] \<and> validIdentifier (elemId (props el))
         \<and> isUnique doc (''#'' @ elemId (props el))
      then Some (''#'' @ elemId (props el)) else None)"

definition nameStrategy :: "document \<Rightarrow> element \<Rightarrow> string option" where
  "nameStrategy doc el =
     (if elemName (props el) \<noteq> [] \<and> isUnique doc (attrSelector ''name'' (elemName (props el)))
      then Some (attrSelector ''name'' (elemName (props el))) else None)"

fun dataAttrStrategy :: "document \<Rightarrow> (string \<times> string) list \<Rightarrow> string option" where
  "dataAttrStrategy doc [] = None"
| "dataAttrStrategy doc ((n, v) # attrs) =
     (if startsWith n ''data-'' \<and> v \<noteq> [] \<and> isUnique doc (attrSelector n v)
      then Some (attrSelector n v) else dataAttrStrategy doc attrs)"

definition typeStrategy :: "document \<Rightarrow> element \<Rightarrow> string option" where
  "typeStrategy doc el =
     (if elemType (props el) \<noteq> [] \<and> toLowerCase (tagName (props el)) \<noteq> ''div''
         \<and> isUnique doc (toLowerCase (tagName (props el)) @ attrSelector ''type'' (elemType (props el)))
      then Some (toLowerCase (tagName (props el)) @ attrSelector ''type'' (elemType (props el)))
      else None)"

definition ariaStrategy :: "document \<Rightarrow> element \<Rightarrow> string \<Rightarrow> string option" where
  "ariaStrategy doc el n =
     (if attrOrEmpty el n \<noteq> []
         \<and> isUnique doc (toLowerCase (tagName (props el)) @ attrSelector n (attrOrEmpty el n))
      then Some (toLowerCase (tagName (props el)) @ attrSelector n (attrOrEmpty el n))
      else None)"

text \<open>Strategies 5 to 7, reached when strategy 4 does not apply.\<close>

definition laterStrategies :: "document \<Rightarrow> element \<Rightarrow> string" where
  "laterStrategies doc el =
     (case typeStrategy doc el of Some s \<Rightarrow> s | None \<Rightarrow>
      (case ariaStrategy doc el ''aria-label'' of Some s \<Rightarrow> s | None \<Rightarrow>
       (case ariaStrategy doc el ''aria-labelledby'' of Some s \<Rightarrow> s | None \<Rightarrow>
        buildPositionBasedSelector doc el)))"

text \<open>Strategy 4 and what follows it.\<close>

definition textStrategy :: "document \<Rightarrow> element \<Rightarrow> string" where
  "textStrategy doc el =
     (if getDirectText el \<noteq> [] \<and> length (getDirectText el) < 100
         \<and> (toLowerCase (tagName (props el)) = ''button'' \<or> toLowerCase (tagName (props el)) = ''a'')
      then
        (if isUnique doc (hasText (toLowerCase (tagName (props el))) (escapeQuotes (getDirectText el)))
         then hasText (toLowerCase (tagName (props el))) (escapeQuotes (getDirectText el))
         else buildContextualSelector doc el (getDirectText el))
      else laterStrategies doc el)"

definition getUniversalSelector :: "document \<Rightarrow> element \<Rightarrow> string" where
  "getUniversalSelector doc el =
     (case idStrategy doc el of Some s \<Rightarrow> s | None \<Rightarrow>
      (case nameStrategy doc el of Some s \<Rightarrow> s | None \<Rightarrow>
       (case dataAttrStrategy doc (attributes (props el)) of Some s \<Rightarrow> s | None \<Rightarrow>
        textStrategy doc el)))"

subsection \<open>extractElementProfile\<close>

text \<open>
  A JavaScript object is an association list in the order in which \<^verbatim>\<open>for ... in\<close> and
  \<^verbatim>\<open>JSON.stringify\<close> visit its keys: first the keys that are array indices (a decimal
  numeral without a leading zero, below \<^verbatim>\<open>4294967295\<close>), in ascending numeric order, then all
  other keys in the order of their insertion. Assigning to a key that exists replaces its
  value in place; a new key is put at its place among the array indices or, when it is not
  one, at the end.
\<close>

definition isDigitUnit :: "nat \<Rightarrow> bool" where
  "isDigitUnit d = (48 \<le> d \<and> d \<le> 57)"

definition indexValue :: "nat list \<Rightarrow> nat" where
  "indexValue k = foldl (\<lambda>acc d. 10 * acc + (d - 48)) 0 k"

definition isArrayIndex :: "nat list \<Rightarrow> bool" where
  "isArrayIndex k =
     (case k of
        [] \<Rightarrow> False
      | d # ds \<Rightarrow> list_all isDigitUnit k \<and> (d \<noteq> 48 \<or> ds = []) \<and> indexValue k < 4294967295)"

fun objReplace :: "(nat list \<times> 'v) list \<Rightarrow> nat list \<Rightarrow> 'v \<Rightarrow> (nat list \<times> 'v) list" where
  "objReplace [] k v = []"
| "objReplace ((k', v') # kvs) k v =
     (if k' = k then (k, v) # kvs else (k', v') # objReplace kvs k v)"

fun objInsertIndex :: "(nat list \<times> 'v) list \<Rightarrow> nat list \<Rightarrow> 'v \<Rightarrow> (nat list \<times> 'v) list" where
  "objInsertIndex [] k v = [(k, v)]"
| "objInsertIndex ((k', v') # kvs) k v =
     (if isArrayIndex k' \<and> indexValue k' < indexValue k
      then (k', v') # objInsertIndex kvs k v
      else (k, v) # (k', v') # kvs)"

definition objSet :: "(nat list \<times> 'v) list \<Rightarrow> nat list \<Rightarrow> 'v \<Rightarrow> (nat list \<times> 'v) list" where
  "objSet kvs k v =
     (if k \<in> set (map fst kvs) then objReplace kvs k v
      else if isArrayIndex k then objInsertIndex kvs k v
      else kvs @ [(k, v)])"

datatype profile_context =
  ElementContext elem_context
| OptionContext (option_parent_text: string) (option_parent_tag: string) (option_container_id: string)

record profile =
  profile_selector :: "string option"
  profile_text :: string
  profile_tag :: string
  profile_attributes :: "(nat list \<times> string) list"
  profile_context :: "profile_context option"

definition keyAttributes :: "string list" where
  "keyAttributes = [''id'', ''name'', ''type'', ''class'', ''value'', ''aria-label'',
     ''aria-labelledby'', ''placeholder'', ''role'', ''href'', ''title'', ''alt'']"

fun keyAttributesLoop ::
  "element \<Rightarrow> string list \<Rightarrow> (nat list \<times> string) list \<Rightarrow> (nat list \<times> string) list" where
  "keyAttributesLoop el [] acc = acc"
| "keyAttributesLoop el (attr # attrs) acc =
     keyAttributesLoop el attrs
       (case getAttribute el attr of
          None \<Rightarrow> acc
        | Some v \<Rightarrow> if v \<noteq> [] then objSet acc (codeUnits attr) v else acc)"

fun dataAttributesLoop ::
  "(string \<times> string) list \<Rightarrow> (nat list \<times> string) list \<Rightarrow> (nat list \<times> string) list" where
  "dataAttributesLoop [] acc = acc"
| "dataAttributesLoop ((n, v) # attrs) acc =
     dataAttributesLoop attrs
       (if startsWith n ''data-'' then objSet acc (codeUnits n) v else acc)"

text \<open>\<^verbatim>\<open>el.placeholder || el.value || ''\<close>.\<close>

definition placeholderOrValue :: "element \<Rightarrow> string" where
  "placeholderOrValue el =
     (if placeholder (props el) \<noteq> [] then placeholder (props el)
      else if elemValue (props el) \<noteq> [] then elemValue (props el)
      else [])"

definition extractElementProfile :: "document \<Rightarrow> element \<Rightarrow> profile" where
  "extractElementProfile doc el =
     \<lparr>profile_selector = None,
      profile_text =
        (if toLowerCase (tagName (props el)) = ''input''
            \<or> toLowerCase (tagName (props el)) = ''textarea''
         then placeholderOrValue el
         else getDirectText el),
      profile_tag = toLowerCase (tagName (props el)),
      profile_attributes =
        dataAttributesLoop (attributes (props el)) (keyAttributesLoop el keyAttributes []),
      profile_context = Some (ElementContext (extractContext doc el))\<rparr>"

subsection \<open>Step 1: the interactive elements\<close>

definition isVisible :: "element \<Rightarrow> bool" where
  "isVisible element =
     (rectWidth (props element) > 0 \<and> rectHeight (props element) > 0
      \<and> styleDisplay (props element) \<noteq> ''none''
      \<and> styleVisibility (props element) \<noteq> ''hidden''
      \<and> styleOpacity (props element) \<noteq> ''0'')"

record scan_state =
  elementMap :: "(nat list \<times> profile) list"
  idCounter :: nat

text \<open>The body of \<^verbatim>\<open>elements.forEach\<close>, on the document as it is when the element is
  reached. The overlay box the script draws is not part of the state.\<close>

definition tagElement :: "document \<Rightarrow> scan_state \<Rightarrow> element \<Rightarrow> scan_state" where
  "tagElement doc st element =
     (if \<not> isVisible element then st
      else \<lparr>elementMap =
              objSet (elementMap st) (codeUnits (decimal (idCounter st)))
                ((extractElementProfile doc element)
                   \<lparr>profile_selector := Some (getUniversalSelector doc element)\<rparr>),
            idCounter = Suc (idCounter st)\<rparr>)"

subsection \<open>Step 2: the options of select elements\<close>

definition isSelectVisible :: "element \<Rightarrow> bool" where
  "isSelectVisible selectElement =
     (rectWidth (props selectElement) > 0 \<and> rectHeight (props selectElement) > 0
      \<and> styleDisplay (props selectElement) \<noteq> ''none''
      \<and> styleVisibility (props selectElement) \<noteq> ''hidden'')"

text \<open>The \<^verbatim>\<open>for (let id in elementMap)\<close> loop: the first key whose profile has the
  selector, \<open>None\<close> for \<^verbatim>\<open>null\<close>.\<close>

fun findSelectId :: "(nat list \<times> profile) list \<Rightarrow> string \<Rightarrow> nat list option" where
  "findSelectId [] selectSelector = None"
| "findSelectId ((k, pr) # kvs) selectSelector =
     (if profile_selector pr = Some selectSelector then Some k
      else findSelectId kvs selectSelector)"

text \<open>The test at the head of \<^verbatim>\<open>options.forEach\<close>.\<close>

definition optionSkipped :: "element \<Rightarrow> bool" where
  "optionSkipped option =
     (elemValue (props option) = [] \<or> disabled (props option)
      \<or> elemValue (props option) = [] \<or> elemValue (props option) = ''select''
      \<or> hasAttribute option ''disabled'')"

definition optionProfile :: "element \<Rightarrow> string \<Rightarrow> element \<Rightarrow> profile" where
  "optionProfile selectElement selectSelector option =
     \<lparr>profile_selector =
        Some (selectSelector @ '' option'' @ attrSelector ''value'' (elemValue (props option))),
      profile_text = collapseSpaces (trim (textContent option)),
      profile_tag = ''option'',
      profile_attributes =
        [(codeUnits ''value'', elemValue (props option)),
         (codeUnits ''parent-select'', selectSelector)],
      profile_context =
        Some (OptionContext (getDirectTextOpt (parentElement selectElement)) ''select''
                (elemId (props selectElement)))\<rparr>"

text \<open>\<^verbatim>\<open>options.forEach\<close> with its counter \<^verbatim>\<open>validOptionIndex\<close>.\<close>

fun optionsLoop ::
  "element \<Rightarrow> nat list \<Rightarrow> string \<Rightarrow> element list \<Rightarrow> nat \<Rightarrow> (nat list \<times> profile) list
    \<Rightarrow> (nat list \<times> profile) list" where
  "optionsLoop selectElement selectId selectSelector [] validOptionIndex em = em"
| "optionsLoop selectElement selectId selectSelector (option # options) validOptionIndex em =
     (if optionSkipped option
      then optionsLoop selectElement selectId selectSelector options validOptionIndex em
      else optionsLoop selectElement selectId selectSelector options (Suc validOptionIndex)
             (objSet em (selectId @ fromCharCode (97 + validOptionIndex))
                (optionProfile selectElement selectSelector option)))"

text \<open>The body of \<^verbatim>\<open>selectElements.forEach\<close>, on the document as it is when the select
  element is reached. \<^verbatim>\<open>!selectId\<close> holds for \<^verbatim>\<open>null\<close> and for the empty key.\<close>

definition processSelect ::
  "document \<Rightarrow> (nat list \<times> profile) list \<Rightarrow> element \<Rightarrow> (nat list \<times> profile) list" where
  "processSelect doc em selectElement =
     (if \<not> isSelectVisible selectElement then em
      else
        (case findSelectId em (getUniversalSelector doc selectElement) of
           None \<Rightarrow> em
         | Some selectId \<Rightarrow>
             if selectId = [] then em
             else optionsLoop selectElement selectId (getUniversalSelector doc selectElement)
                    (optionsOf selectElement) 0 em))"

section \<open>DOM stabilization\<close>

text \<open>
  The promise executor sets two timers and a mutation observer. Time is counted in
  milliseconds from the moment the executor runs. A pending timer is the instant at which
  it is due; \<^verbatim>\<open>clearTimeout\<close> and firing both leave \<open>None\<close>. The state records when the
  promise was resolved (the first \<^verbatim>\<open>resolve\<close> settles it, later calls change nothing) and
  every instant at which \<^verbatim>\<open>performTagging\<close> was called.
\<close>

record gate =
  stabilityTimer :: "nat option"
  maxWaitTimer :: "nat option"
  observing :: bool
  resolvedAt :: "nat option"
  taggingRuns :: "nat list"

datatype timer = MaxWaitTimer | StabilityTimer

text \<open>\<^verbatim>\<open>resolve(performTagging())\<close> at instant \<open>t\<close>.\<close>

definition resolveWithTagging :: "nat \<Rightarrow> gate \<Rightarrow> gate" where
  "resolveWithTagging t g =
     g\<lparr>taggingRuns := taggingRuns g @ [t],
       resolvedAt := (case resolvedAt g of None \<Rightarrow> Some t | Some r \<Rightarrow> Some r)\<rparr>"

text \<open>The executor: \<^verbatim>\<open>maxWaitTimer = setTimeout(..., 3000)\<close>, \<^verbatim>\<open>observer.observe(...)\<close>,
  \<^verbatim>\<open>stabilityTimer = setTimeout(..., 300)\<close>.\<close>

definition startGate :: gate where
  "startGate = \<lparr>stabilityTimer = Some 300, maxWaitTimer = Some 3000, observing = True,
     resolvedAt = None, taggingRuns = []\<rparr>"

text \<open>The callback of the failsafe timer, fired at instant \<open>t\<close>.\<close>

definition maxWaitCallback :: "nat \<Rightarrow> gate \<Rightarrow> gate" where
  "maxWaitCallback t g = resolveWithTagging t (g\<lparr>maxWaitTimer := None, observing := False\<rparr>)"

text \<open>The callback of a stability timer, fired at instant \<open>t\<close>: it clears the failsafe
  timer and disconnects the observer.\<close>

definition stabilityCallback :: "nat \<Rightarrow> gate \<Rightarrow> gate" where
  "stabilityCallback t g =
     resolveWithTagging t (g\<lparr>stabilityTimer := None, maxWaitTimer := None, observing := False\<rparr>)"

text \<open>The observer's callback for a mutation at instant \<open>t\<close>; a disconnected observer is
  not called.\<close>

definition mutationCallback :: "nat \<Rightarrow> gate \<Rightarrow> gate" where
  "mutationCallback t g = (if observing g then g\<lparr>stabilityTimer := Some (t + 300)\<rparr> else g)"

text \<open>
  The event loop. The pending timer that is due first fires first; of two timers due at the
  same instant the one set earlier fires first, and the failsafe timer is set before any
  stability timer. A mutation at the very instant a timer is due is delivered before the
  timer fires.
\<close>

definition nextTimer :: "gate \<Rightarrow> (nat \<times> timer) option" where
  "nextTimer g =
     (case maxWaitTimer g of
        None \<Rightarrow> (case stabilityTimer g of None \<Rightarrow> None | Some s \<Rightarrow> Some (s, StabilityTimer))
      | Some m \<Rightarrow>
          (case stabilityTimer g of
             None \<Rightarrow> Some (m, MaxWaitTimer)
           | Some s \<Rightarrow> if m \<le> s then Some (m, MaxWaitTimer) else Some (s, StabilityTimer)))"

definition fire :: "timer \<Rightarrow> nat \<Rightarrow> gate \<Rightarrow> gate" where
  "fire tm t g = (case tm of MaxWaitTimer \<Rightarrow> maxWaitCallback t g | StabilityTimer \<Rightarrow> stabilityCallback t g)"

definition pendingTimers :: "gate \<Rightarrow> nat" where
  "pendingTimers g =
     (if stabilityTimer g = None then 0 else 1) + (if maxWaitTimer g = None then 0 else 1)"

text \<open>Fire every timer due before the instant \<open>limit\<close>; with no limit, fire every pending
  timer.\<close>

function runTimers :: "nat option \<Rightarrow> gate \<Rightarrow> gate" where
  "runTimers limit g =
     (case nextTimer g of
        None \<Rightarrow> g
      | Some (due, tm) \<Rightarrow>
          if (case limit of None \<Rightarrow> True | Some t \<Rightarrow> due < t)
          then runTimers limit (fire tm due g)
          else g)"
  by pat_completeness auto
termination
  by (relation "measure (\<lambda>(limit, g). pendingTimers g)")
     (auto simp: nextTimer_def fire_def pendingTimers_def maxWaitCallback_def
        stabilityCallback_def resolveWithTagging_def split: option.splits if_splits timer.splits)

text \<open>The gate under a schedule of mutation instants, in ascending order.\<close>

fun runGate :: "nat list \<Rightarrow> gate \<Rightarrow> gate" where
  "runGate [] g = runTimers None g"
| "runGate (t # ts) g = runGate ts (mutationCallback t (runTimers (Some t) g))"

definition stabilityGate :: "nat list \<Rightarrow> gate" where
  "stabilityGate mutations = runGate mutations startGate"

text \<open>
  An instant \<open>t\<close> is quiet under a schedule when 300 ms have passed since the executor ran
  and every mutation of the schedule either lies at least 300 ms back or is still to come.
\<close>

definition quiet :: "nat list \<Rightarrow> nat \<Rightarrow> bool" where
  "quiet mutations t = (300 \<le> t \<and> (\<forall>m \<in> set mutations. m + 300 \<le> t \<or> t < m))"

text \<open>The gate while it waits, its stability timer last set at the instant \<open>since\<close>.\<close>

definition waiting :: "nat \<Rightarrow> gate" where
  "waiting since = \<lparr>stabilityTimer = Some (since + 300), maxWaitTimer = Some 3000,
     observing = True, resolvedAt = None, taggingRuns = []\<rparr>"

text \<open>Schedules: a mutation every 100 ms up to 2500 ms, up to 2900 ms, and up to 3500 ms.\<close>

definition mutationsUntil2500 :: "nat list" where
  "mutationsUntil2500 =
     [100, 200, 300, 400, 500, 600, 700, 800, 900, 1000, 1100, 1200, 1300, 1400, 1500,
     1600, 1700, 1800, 1900, 2000, 2100, 2200, 2300, 2400, 2500]"

definition mutationsUntil2900 :: "nat list" where
  "mutationsUntil2900 =
     [100, 200, 300, 400, 500, 600, 700, 800, 900, 1000, 1100, 1200, 1300, 1400, 1500,
     1600, 1700, 1800, 1900, 2000, 2100, 2200, 2300, 2400, 2500, 2600, 2700, 2800, 2900]"

definition mutationsUntil3500 :: "nat list" where
  "mutationsUntil3500 =
     [100, 200, 300, 400, 500, 600, 700, 800, 900, 1000, 1100, 1200, 1300, 1400, 1500,
     1600, 1700, 1800, 1900, 2000, 2100, 2200, 2300, 2400, 2500, 2600, 2700, 2800, 2900,
     3000, 3100, 3200, 3300, 3400, 3500]"

section \<open>Ancestors of an element\<close>

text \<open>
  The \<^verbatim>\<open>parentElement\<close> chain of an element, nearest ancestor first. The loops of
  \<^verbatim>\<open>extractContext\<close> and \<^verbatim>\<open>buildContextualSelector\<close> visit at most its first five members.
  \<open>firstId\<close> is the id of the first member of a list of elements that has one, and the empty
  string when none has.
\<close>

fun ancestorChain :: "element option \<Rightarrow> element list" where
  "ancestorChain None = []"
| "ancestorChain (Some (Element p cs par prev)) = Element p cs par prev # ancestorChain par"

definition ancestors :: "element \<Rightarrow> element list" where
  "ancestors el = ancestorChain (parentElement el)"

definition firstId :: "element list \<Rightarrow> string" where
  "firstId els = (case find (\<lambda>a. elemId (props a) \<noteq> []) els of
                    None \<Rightarrow> [] | Some a \<Rightarrow> elemId (props a))"

section \<open>Example pages\<close>

text \<open>
  Concrete handles for the examples below. A handle is a finite view of the live document:
  one reached by climbing (\<^verbatim>\<open>parentElement\<close>, \<^verbatim>\<open>previousElementSibling\<close>) lists among its
  child nodes the text nodes, which is all \<^verbatim>\<open>getDirectText\<close> reads from it; one reached by
  descending (\<^verbatim>\<open>querySelectorAll('option')\<close>) has no parent link, which the script never
  follows from there. The query function of an example page lists, for every selector the
  script passes to \<^verbatim>\<open>document.querySelectorAll\<close> on that page, the number of elements a
  browser finds; a selector that is missing from the list is one the browser rejects with a
  syntax error, as it does for the \<^verbatim>\<open>:has-text\<close> pseudo-class.
\<close>

definition elementProps :: "string \<Rightarrow> props" where
  "elementProps t = \<lparr>tagName = t, elemId = [], elemName = [], elemType = [], className = [],
     attributes = [], placeholder = [], elemValue = [], disabled = False,
     rectWidth = 120, rectHeight = 24,
     styleDisplay = ''block'', styleVisibility = ''visible'', styleOpacity = ''1'',
     isDocumentBody = False\<rparr>"

definition htmlElement :: element where
  "htmlElement = Element (elementProps ''HTML'') [] None None"

definition bodyElement :: element where
  "bodyElement =
     Element ((elementProps ''BODY'')\<lparr>isDocumentBody := True\<rparr>) [] (Some htmlElement) None"

subsection \<open>A checkout page\<close>

text \<open>
  The body holds a section with the id \<^verbatim>\<open>main\<close> and no text of its own. The section holds
  two \<^verbatim>\<open>div\<close> elements with the direct texts \<^verbatim>\<open>Billing\<close> and \<^verbatim>\<open>Shipping\<close>. The first holds
  two buttons labelled \<^verbatim>\<open>Submit\<close> and a \<^verbatim>\<open>span\<close> with the id \<^verbatim>\<open>actions\<close> around a link
  labelled \<^verbatim>\<open>Help\<close>; the second holds a \<^verbatim>\<open>div\<close> with no text and no id around one
  button labelled \<^verbatim>\<open>Submit\<close>.
\<close>

definition mainSection :: element where
  "mainSection =
     Element ((elementProps ''SECTION'')\<lparr>elemId := ''main'', attributes := [(''id'', ''main'')]\<rparr>)
       [] (Some bodyElement) None"

definition billingDiv :: element where
  "billingDiv =
     Element ((elementProps ''DIV'')\<lparr>className := ''card'', attributes := [(''class'', ''card'')]\<rparr>)
       [TextNode ''Billing''] (Some mainSection) None"


definition billingSubmit :: element where
  "billingSubmit =
     Element ((elementProps ''BUTTON'')\<lparr>elemType := ''submit''\<rparr>) [TextNode ''Submit'']
       (Some billingDiv) None"

definition billingSubmitAgain :: element where
  "billingSubmitAgain =
     Element ((elementProps ''BUTTON'')\<lparr>elemType := ''submit''\<rparr>) [TextNode ''Submit'']
       (Some billingDiv) (Some billingSubmit)"

definition actionsSpan :: element where
  "actionsSpan =
     Element ((elementProps ''SPAN'')\<lparr>elemId := ''actions'', attributes := [(''id'', ''actions'')]\<rparr>)
       [] (Some billingDiv) (Some billingSubmitAgain)"

definition helpLink :: element where
  "helpLink =
     Element ((elementProps ''A'')\<lparr>attributes := [(''href'', ''/help'')]\<rparr>) [TextNode ''Help'']
       (Some actionsSpan) None"



definition checkoutQueries :: "(string \<times> nat) list" where
  "checkoutQueries =
     [(''button:nth-child(1)'', 2),
      (''button:nth-child(2)'', 1),
      (''a:nth-child(1)'', 1),
      (''div:nth-child(1) > button:nth-child(1)'', 2),
      (''div:nth-child(2) > div:nth-child(1) > button:nth-child(1)'', 1),
      (''button'' @ attrSelector ''type'' ''submit'', 0)]"

definition checkoutDocument :: document where
  "checkoutDocument =
     \<lparr>querySelectorAll = map_of checkoutQueries, getElementById = (\<lambda>s. None)\<rparr>"

subsection \<open>A settings page\<close>

text \<open>
  The body holds a section with the id \<^verbatim>\<open>outer\<close> and the direct text \<^verbatim>\<open>Title\<close>; the
  section holds a \<^verbatim>\<open>div\<close> with the id \<^verbatim>\<open>inner\<close> and no text of its own around one
  button labelled \<^verbatim>\<open>Save\<close>. The only selector the script queries on this page uses
  \<^verbatim>\<open>:has-text\<close>.
\<close>

definition outerSection :: element where
  "outerSection =
     Element ((elementProps ''SECTION'')\<lparr>elemId := ''outer'', attributes := [(''id'', ''outer'')]\<rparr>)
       [TextNode ''Title''] (Some bodyElement) None"

definition innerDiv :: element where
  "innerDiv =
     Element ((elementProps ''DIV'')\<lparr>elemId := ''inner'', attributes := [(''id'', ''inner'')]\<rparr>)
       [] (Some outerSection) None"

definition saveButton :: element where
  "saveButton =
     Element ((elementProps ''BUTTON'')\<lparr>elemType := ''submit''\<rparr>) [TextNode ''Save'']
       (Some innerDiv) None"

definition settingsDocument :: document where
  "settingsDocument = \<lparr>querySelectorAll = map_of [], getElementById = (\<lambda>s. None)\<rparr>"

subsection \<open>A form page\<close>

text \<open>
  The body holds, in this order: a text area whose initial content is \<^verbatim>\<open>hello\<close> and whose
  value the user has cleared; a select named \<^verbatim>\<open>country\<close> with the options \<^verbatim>\<open>""\<close>,
  \<^verbatim>\<open>a1\<close>, \<^verbatim>\<open>a2\<close>; a select named \<^verbatim>\<open>archive\<close> styled with opacity 0; two selects that
  share the id \<^verbatim>\<open>region\<close>, the second styled with opacity 0; and a select named
  \<^verbatim>\<open>state\<close> with 27 options.
\<close>

definition optionElement :: "string \<Rightarrow> string \<Rightarrow> element" where
  "optionElement v t =
     Element ((elementProps ''OPTION'')\<lparr>attributes := [(''value'', v)], elemValue := v\<rparr>)
       [TextNode t] None None"

definition clearedTextarea :: element where
  "clearedTextarea =
     Element ((elementProps ''TEXTAREA'')\<lparr>elemType := ''textarea''\<rparr>) [TextNode ''hello'']
       (Some bodyElement) None"

definition countrySelect :: element where
  "countrySelect =
     Element ((elementProps ''SELECT'')
                \<lparr>elemName := ''country'', elemType := ''select-one'',
                 attributes := [(''name'', ''country'')]\<rparr>)
       [ElementNode (optionElement [] ''Choose a country''),
        ElementNode (optionElement ''a1'' ''Austria''),
        ElementNode (optionElement ''a2'' ''Australia'')]
       (Some bodyElement) (Some clearedTextarea)"

definition archiveSelect :: element where
  "archiveSelect =
     Element ((elementProps ''SELECT'')
                \<lparr>elemName := ''archive'', elemType := ''select-one'',
                 attributes := [(''name'', ''archive'')], elemValue := ''y2023'',
                 styleOpacity := ''0''\<rparr>)
       [ElementNode (optionElement ''y2023'' ''2023'')]
       (Some bodyElement) (Some countrySelect)"

definition regionSelect :: element where
  "regionSelect =
     Element ((elementProps ''SELECT'')
                \<lparr>elemId := ''region'', elemType := ''select-one'',
                 attributes := [(''id'', ''region'')], elemValue := ''north''\<rparr>)
       [ElementNode (optionElement ''north'' ''North'')]
       (Some bodyElement) (Some archiveSelect)"

definition regionSelectHidden :: element where
  "regionSelectHidden =
     Element ((elementProps ''SELECT'')
                \<lparr>elemId := ''region'', elemType := ''select-one'',
                 attributes := [(''id'', ''region'')], elemValue := ''eu'',
                 styleOpacity := ''0''\<rparr>)
       [ElementNode (optionElement ''eu'' ''Europe'')]
       (Some bodyElement) (Some regionSelect)"


definition formQueries :: "(string \<times> nat) list" where
  "formQueries =
     [(attrSelector ''name'' ''country'', 1),
      (attrSelector ''name'' ''archive'', 1),
      (attrSelector ''name'' ''state'', 1),
      (''#region'', 2),
      (''select'' @ attrSelector ''type'' ''select-one'', 0),
      (''textarea'' @ attrSelector ''type'' ''textarea'', 0)]"

definition formDocument :: document where
  "formDocument = \<lparr>querySelectorAll = map_of formQueries, getElementById = (\<lambda>s. None)\<rparr>"

text \<open>The scan state before step 1.\<close>

definition initialScan :: scan_state where
  "initialScan = \<lparr>elementMap = [], idCounter = 1\<rparr>"

text \<open>Step 1 on the country select alone, on the state select alone, and on the two region
  selects; on this page the overlay boxes change none of the listed answers.\<close>

definition countryScan :: scan_state where
  "countryScan = tagElement formDocument initialScan countrySelect"


definition regionScan :: scan_state where
  "regionScan = foldl (tagElement formDocument) initialScan [regionSelect, regionSelectHidden]"

section \<open>Properties\<close>

subsection \<open>Stability Gate\<close>

declare runTimers.simps [simp del]

lemma resolvedAt_fire: "resolvedAt g = Some T \<Longrightarrow> resolvedAt (fire tm t g) = Some T"
  by (cases tm) (simp_all add: fire_def maxWaitCallback_def stabilityCallback_def resolveWithTagging_def)

lemma resolvedAt_runTimers: "resolvedAt g = Some T \<Longrightarrow> resolvedAt (runTimers limit g) = Some T"
proof (induction limit g rule: runTimers.induct)
  case (1 limit g)
  show ?case
  proof (cases "nextTimer g")
    case None
    with 1 show ?thesis by (subst runTimers.simps) simp
  next
    case (Some dt)
    obtain due tm where dt: "dt = (due, tm)" by (cases dt)
    show ?thesis
    proof (cases "case limit of None \<Rightarrow> True | Some t \<Rightarrow> due < t")
      case True
      with 1 Some dt show ?thesis
        by (subst runTimers.simps) (simp add: resolvedAt_fire)
    next
      case False
      with 1 Some dt show ?thesis by (subst runTimers.simps) simp
    qed
  qed
qed

lemma resolvedAt_mutationCallback:
  "resolvedAt g = Some T \<Longrightarrow> resolvedAt (mutationCallback t g) = Some T"
  by (simp add: mutationCallback_def)

lemma resolvedAt_runGate: "resolvedAt g = Some T \<Longrightarrow> resolvedAt (runGate ms g) = Some T"
  by (induction ms arbitrary: g)
     (simp_all add: resolvedAt_runTimers resolvedAt_mutationCallback)

lemma runTimers_stability_wins:
  assumes "since + 300 < 3000" and "case limit of None \<Rightarrow> True | Some t \<Rightarrow> since + 300 < t"
  shows "resolvedAt (runTimers limit (waiting since)) = Some (since + 300)"
proof -
  have due: "nextTimer (waiting since) = Some (since + 300, StabilityTimer)"
    using assms(1) by (simp add: nextTimer_def waiting_def)
  have "resolvedAt (fire StabilityTimer (since + 300) (waiting since)) = Some (since + 300)"
    by (simp add: fire_def stabilityCallback_def resolveWithTagging_def waiting_def)
  then have "resolvedAt (runTimers limit (fire StabilityTimer (since + 300) (waiting since))) = Some (since + 300)"
    by (rule resolvedAt_runTimers)
  with due assms(2) show ?thesis
    by (subst runTimers.simps) simp
qed

lemma runTimers_deadline_wins:
  assumes "3000 \<le> since + 300" and "case limit of None \<Rightarrow> True | Some t \<Rightarrow> 3000 < t"
  shows "resolvedAt (runTimers limit (waiting since)) = Some 3000"
proof -
  have due: "nextTimer (waiting since) = Some (3000, MaxWaitTimer)"
    using assms(1) by (simp add: nextTimer_def waiting_def)
  have "resolvedAt (fire MaxWaitTimer 3000 (waiting since)) = Some 3000"
    by (simp add: fire_def maxWaitCallback_def resolveWithTagging_def waiting_def)
  then have "resolvedAt (runTimers limit (fire MaxWaitTimer 3000 (waiting since))) = Some 3000"
    by (rule resolvedAt_runTimers)
  with due assms(2) show ?thesis
    by (subst runTimers.simps) simp
qed

lemma runTimers_nothing_due:
  assumes "t \<le> since + 300" and "t \<le> 3000"
  shows "runTimers (Some t) (waiting since) = waiting since"
  using assms by (subst runTimers.simps) (simp add: nextTimer_def waiting_def)

lemma mutationCallback_waiting: "mutationCallback t (waiting since) = waiting t"
  by (simp add: mutationCallback_def waiting_def)

lemma runGate_waiting:
  "sorted ms \<Longrightarrow> \<forall>m \<in> set ms. since \<le> m \<Longrightarrow> since \<le> 3000
   \<Longrightarrow> \<exists>T. resolvedAt (runGate ms (waiting since)) = Some T \<and> T \<le> 3000
          \<and> (T < 3000 \<longrightarrow> since + 300 \<le> T \<and> (\<forall>m \<in> set ms. m + 300 \<le> T \<or> T < m))
          \<and> (\<forall>t<T. t < since + 300 \<or> (\<exists>m \<in> set ms. \<not> (m + 300 \<le> t \<or> t < m)))"
proof (induction ms arbitrary: since)
  case Nil
  show ?case
  proof (cases "since + 300 < 3000")
    case True
    then have "resolvedAt (runTimers None (waiting since)) = Some (since + 300)"
      by (intro runTimers_stability_wins) simp_all
    with True show ?thesis by simp
  next
    case False
    then have "resolvedAt (runTimers None (waiting since)) = Some 3000"
      by (intro runTimers_deadline_wins) simp_all
    with False show ?thesis by auto
  qed
next
  case (Cons m ms)
  from Cons.prems have lm: "since \<le> m" and sms: "sorted ms" and mms: "\<forall>x \<in> set ms. m \<le> x"
    by auto
  consider (stab) "since + 300 < 3000" "since + 300 < m"
    | (dead) "3000 \<le> since + 300" "3000 < m"
    | (none) "m \<le> since + 300" "m \<le> 3000"
    by linarith
  then show ?case
  proof cases
    case stab
    then have "resolvedAt (runTimers (Some m) (waiting since)) = Some (since + 300)"
      by (intro runTimers_stability_wins) simp_all
    then have "resolvedAt (runGate (m # ms) (waiting since)) = Some (since + 300)"
      by (simp add: resolvedAt_runGate resolvedAt_mutationCallback)
    moreover have "\<forall>x \<in> set (m # ms). since + 300 < x"
      using stab(2) mms by auto
    ultimately show ?thesis using stab(1) by auto
  next
    case dead
    then have "resolvedAt (runTimers (Some m) (waiting since)) = Some 3000"
      by (intro runTimers_deadline_wins) simp_all
    then have "resolvedAt (runGate (m # ms) (waiting since)) = Some 3000"
      by (simp add: resolvedAt_runGate resolvedAt_mutationCallback)
    with dead(1) show ?thesis by auto
  next
    case none
    then have step: "runGate (m # ms) (waiting since) = runGate ms (waiting m)"
      by (simp add: runTimers_nothing_due mutationCallback_waiting)
    from Cons.IH [OF sms mms none(2)] obtain T where T:
      "resolvedAt (runGate ms (waiting m)) = Some T" "T \<le> 3000"
      "T < 3000 \<longrightarrow> m + 300 \<le> T \<and> (\<forall>x \<in> set ms. x + 300 \<le> T \<or> T < x)"
      "\<forall>t<T. t < m + 300 \<or> (\<exists>x \<in> set ms. \<not> (x + 300 \<le> t \<or> t < x))"
      by blast
    have a: "T < 3000 \<longrightarrow> since + 300 \<le> T \<and> (\<forall>x \<in> set (m # ms). x + 300 \<le> T \<or> T < x)"
      using T(3) lm by auto
    have b: "\<forall>t<T. t < since + 300 \<or> (\<exists>x \<in> set (m # ms). \<not> (x + 300 \<le> t \<or> t < x))"
    proof (intro allI impI)
      fix t assume "t < T"
      with T(4) have "t < m + 300 \<or> (\<exists>x \<in> set ms. \<not> (x + 300 \<le> t \<or> t < x))" by blast
      then show "t < since + 300 \<or> (\<exists>x \<in> set (m # ms). \<not> (x + 300 \<le> t \<or> t < x))"
      proof
        assume "t < m + 300"
        show ?thesis
        proof (cases "t < m")
          case True
          with none(1) show ?thesis by simp
        next
          case False
          with \<open>t < m + 300\<close> show ?thesis by auto
        qed
      next
        assume "\<exists>x \<in> set ms. \<not> (x + 300 \<le> t \<or> t < x)"
        then show ?thesis by auto
      qed
    qed
    from step T(1,2) a b show ?thesis by auto
  qed
qed

lemma startGate_waiting: "startGate = waiting 0"
  by (simp add: startGate_def waiting_def)

lemma stabilityGate_first_quiet_or_deadline:
  "sorted mutations \<Longrightarrow>
     \<exists>T. resolvedAt (stabilityGate mutations) = Some T \<and> T \<le> 3000
       \<and> (T < 3000 \<longrightarrow> quiet mutations T) \<and> (\<forall>t<T. \<not> quiet mutations t)"
proof -
  assume s: "sorted mutations"
  have "\<forall>m \<in> set mutations. 0 \<le> m" by simp
  from runGate_waiting [OF s this, of ] obtain T where T:
    "resolvedAt (runGate mutations (waiting 0)) = Some T" "T \<le> 3000"
    "T < 3000 \<longrightarrow> 0 + 300 \<le> T \<and> (\<forall>m \<in> set mutations. m + 300 \<le> T \<or> T < m)"
    "\<forall>t<T. t < 0 + 300 \<or> (\<exists>m \<in> set mutations. \<not> (m + 300 \<le> t \<or> t < m))"
    by auto
  have "\<forall>t<T. \<not> quiet mutations t"
    using T(4) by (auto simp: quiet_def)
  with T(1-3) show ?thesis
    by (auto simp: stabilityGate_def startGate_waiting quiet_def)
qed

lemma resolvedAt_mutationsUntil2500:
  "resolvedAt (stabilityGate mutationsUntil2500) = Some 2800"
  by (simp add: mutationsUntil2500_def stabilityGate_def startGate_def runTimers.simps nextTimer_def fire_def
        mutationCallback_def stabilityCallback_def maxWaitCallback_def resolveWithTagging_def)

lemma resolvedAt_mutationsUntil3500:
  "resolvedAt (stabilityGate mutationsUntil3500) = Some 3000"
  by (simp add: mutationsUntil3500_def stabilityGate_def startGate_def runTimers.simps nextTimer_def fire_def
        mutationCallback_def stabilityCallback_def maxWaitCallback_def resolveWithTagging_def)

text \<open>
  C2. Under every schedule of mutations (instants in ascending order, in milliseconds from
  the start) the promise is resolved, at an instant \<open>T\<close> that is at most 3000; when \<open>T\<close> is
  before 3000 it is a quiet instant, and no instant before \<open>T\<close> is quiet: \<open>T\<close> is the first
  instant at which the document has gone 300 ms without a mutation, or the deadline,
  whichever comes first. With a mutation every 100 ms up to 2500 ms the promise is resolved
  at 2800 ms; with a mutation every 100 ms up to 3500 ms it is resolved at 3000 ms.
\<close>

theorem stabilityGate_resolves_at_first_quiet_instant_or_deadline:
  "(sorted mutations \<longrightarrow>
      (\<exists>T. resolvedAt (stabilityGate mutations) = Some T \<and> T \<le> 3000
         \<and> (T < 3000 \<longrightarrow> quiet mutations T) \<and> (\<forall>t<T. \<not> quiet mutations t)))
   \<and> resolvedAt (stabilityGate mutationsUntil2500) = Some 2800
   \<and> resolvedAt (stabilityGate mutationsUntil3500) = Some 3000"
  using stabilityGate_first_quiet_or_deadline [of mutations]
    resolvedAt_mutationsUntil2500 resolvedAt_mutationsUntil3500
  by blast

theorem stabilityGate_resolves_at_first_quiet_instant_or_deadline_witness:
  "sorted mutationsUntil2500
   \<and> resolvedAt (stabilityGate mutationsUntil2500) = Some 2800
   \<and> quiet mutationsUntil2500 2800 \<and> \<not> quiet mutationsUntil2500 2799"
proof -
  have ordered: "sorted mutationsUntil2500"
    by (simp add: mutationsUntil2500_def)
  from stabilityGate_resolves_at_first_quiet_instant_or_deadline [of mutationsUntil2500] ordered
  obtain T where T: "resolvedAt (stabilityGate mutationsUntil2500) = Some T"
      "T < 3000 \<longrightarrow> quiet mutationsUntil2500 T" "\<forall>t<T. \<not> quiet mutationsUntil2500 t"
      and at: "resolvedAt (stabilityGate mutationsUntil2500) = Some 2800"
    by blast
  from T(1) at have "T = 2800"
    by simp
  with T(2,3) have "quiet mutationsUntil2500 2800" and "\<not> quiet mutationsUntil2500 2799"
    by simp_all
  with ordered at show ?thesis
    by simp
qed

text \<open>
  C3. The callback of the failsafe timer disconnects the observer and resolves, but it does
  not clear the pending stability timer, as the stability callback clears the failsafe
  timer. With a mutation every 100 ms up to 2900 ms the failsafe fires at 3000 ms while the
  stability timer set at 2900 ms is pending; that timer fires at 3200 ms and calls
  \<^verbatim>\<open>performTagging\<close> a second time.
\<close>

theorem stabilityGate_failsafe_leaves_stability_timer:
  "resolvedAt (stabilityGate mutationsUntil2900) = Some 3000
   \<and> taggingRuns (stabilityGate mutationsUntil2900) = [3000, 3200]"
  by (simp add: mutationsUntil2900_def stabilityGate_def startGate_def runTimers.simps nextTimer_def fire_def
        mutationCallback_def stabilityCallback_def maxWaitCallback_def resolveWithTagging_def)

subsection \<open>Profile Builder\<close>

text \<open>
  C9 (as amended). For an input or textarea element the profile's text is the placeholder
  when that is non-empty and the current value otherwise (the empty string when both are
  empty); the direct text-node content of the element is not consulted.
\<close>

theorem extractElementProfile_text_of_input:
  "toLowerCase (tagName (props el)) = ''input'' \<or> toLowerCase (tagName (props el)) = ''textarea''
   \<Longrightarrow> profile_text (extractElementProfile doc el)
       = (if placeholder (props el) \<noteq> [] then placeholder (props el) else elemValue (props el))"
  by (auto simp: extractElementProfile_def placeholderOrValue_def)

text \<open>The cleared text area has direct text \<^verbatim>\<open>hello\<close>, no placeholder and an empty value:
  its profile text is empty, not \<^verbatim>\<open>hello\<close>.\<close>

theorem extractElementProfile_textarea_ignores_direct_text:
  "toLowerCase (tagName (props clearedTextarea)) = ''textarea''
   \<and> placeholder (props clearedTextarea) = [] \<and> elemValue (props clearedTextarea) = []
   \<and> getDirectText clearedTextarea = ''hello''
   \<and> profile_text (extractElementProfile formDocument clearedTextarea) = []"
  by code_simp

theorem extractElementProfile_text_of_input_witness:
  "(toLowerCase (tagName (props clearedTextarea)) = ''input''
      \<or> toLowerCase (tagName (props clearedTextarea)) = ''textarea'')
   \<and> profile_text (extractElementProfile formDocument clearedTextarea) = []"
proof -
  have tag: "toLowerCase (tagName (props clearedTextarea)) = ''input''
      \<or> toLowerCase (tagName (props clearedTextarea)) = ''textarea''"
    by code_simp
  have empty: "placeholder (props clearedTextarea) = [] \<and> elemValue (props clearedTextarea) = []"
    by code_simp
  from extractElementProfile_text_of_input [OF tag, of formDocument] empty tag
  show ?thesis by simp
qed

subsection \<open>Option Expander\<close>

lemma findSelectId_no_match:
  "\<forall>kv \<in> set em. profile_selector (snd kv) \<noteq> Some s \<Longrightarrow> findSelectId em s = None"
  by (induction em) auto

text \<open>
  C10. When a select element passes the visibility test of step 2 and the selector
  recomputed for it equals the selector of no profile in the element map,
  \<^verbatim>\<open>selectElements.forEach\<close> leaves the element map as it was: no option profile is added, and
  the function returns (the model is total, a failing query being a value).
\<close>

theorem processSelect_unmatched_selector_skips:
  "isSelectVisible sel
   \<Longrightarrow> \<forall>kv \<in> set em. profile_selector (snd kv) \<noteq> Some (getUniversalSelector doc sel)
   \<Longrightarrow> processSelect doc em sel = em"
  by (simp add: processSelect_def findSelectId_no_match)

theorem processSelect_unmatched_selector_skips_witness:
  "isSelectVisible archiveSelect
   \<and> list_all (\<lambda>kv. profile_selector (snd kv)
                       \<noteq> Some (getUniversalSelector formDocument archiveSelect))
        (elementMap countryScan)
   \<and> processSelect formDocument (elementMap countryScan) archiveSelect = elementMap countryScan"
proof -
  have vis: "isSelectVisible archiveSelect"
    by code_simp
  have no: "list_all (\<lambda>kv. profile_selector (snd kv)
                              \<noteq> Some (getUniversalSelector formDocument archiveSelect))
              (elementMap countryScan)"
    by code_simp
  then have hyp: "\<forall>kv \<in> set (elementMap countryScan).
      profile_selector (snd kv) \<noteq> Some (getUniversalSelector formDocument archiveSelect)"
    by (simp add: list_all_iff)
  from processSelect_unmatched_selector_skips [OF vis hyp] vis no show ?thesis
    by simp
qed







text \<open>
  C8. The visibility test of step 2 leaves out the opacity test of step 1. The second
  region select has opacity 0: step 1 drops it, step 2 accepts it, finds the LogicalID of
  the first region select under the selector they share, and stores its option under
  \<^verbatim>\<open>1a\<close>, over the option of the first.
\<close>

theorem isSelectVisible_ignores_opacity:
  "\<not> isVisible regionSelectHidden \<and> isSelectVisible regionSelectHidden
   \<and> map fst (elementMap regionScan) = [codeUnits ''1'']
   \<and> map (\<lambda>kv. (fst kv, profile_text (snd kv)))
        (foldl (processSelect formDocument) (elementMap regionScan)
           [regionSelect, regionSelectHidden])
       = [(codeUnits ''1'', []), (codeUnits ''1a'', ''Europe'')]"
  by code_simp

subsection \<open>Selector Synthesizer\<close>

lemma idStrategy_unique: "idStrategy doc el = Some s \<Longrightarrow> isUnique doc s"
  by (auto simp: idStrategy_def split: if_splits)

lemma nameStrategy_unique: "nameStrategy doc el = Some s \<Longrightarrow> isUnique doc s"
  by (auto simp: nameStrategy_def split: if_splits)

lemma dataAttrStrategy_unique: "dataAttrStrategy doc attrs = Some s \<Longrightarrow> isUnique doc s"
  by (induction attrs) (auto split: if_splits)

lemma typeStrategy_unique: "typeStrategy doc el = Some s \<Longrightarrow> isUnique doc s"
  by (auto simp: typeStrategy_def split: if_splits)

lemma ariaStrategy_unique: "ariaStrategy doc el n = Some s \<Longrightarrow> isUnique doc s"
  by (auto simp: ariaStrategy_def split: if_splits)

lemma laterStrategies_cases:
  "isUnique doc (laterStrategies doc el)
   \<or> laterStrategies doc el = buildPositionBasedSelector doc el"
  by (auto simp: laterStrategies_def typeStrategy_unique ariaStrategy_unique
        split: option.splits)

lemma textStrategy_cases:
  "isUnique doc (textStrategy doc el)
   \<or> contextualLoop (toLowerCase (tagName (props el))) (getDirectText el) (parentElement el) 0
       = Some (textStrategy doc el)
   \<or> textStrategy doc el = buildPositionBasedSelector doc el"
  using laterStrategies_cases [of doc el]
  by (auto simp: textStrategy_def buildContextualSelector_def split: option.splits)

text \<open>
  C1 (as amended). For every element, the selector returned by \<^verbatim>\<open>getUniversalSelector\<close>
  either passed the live uniqueness check (the query found exactly one element), or is the
  compound selector built by the loop of \<^verbatim>\<open>buildContextualSelector\<close>, which is returned
  without a check, or is the result of \<^verbatim>\<open>buildPositionBasedSelector\<close>, which is returned
  whatever its last check said. The result is the selector string alone: nothing in it tells
  the three cases apart.
\<close>

theorem getUniversalSelector_verified_or_unverified_tier:
  "isUnique doc (getUniversalSelector doc el)
   \<or> contextualLoop (toLowerCase (tagName (props el))) (getDirectText el) (parentElement el) 0
       = Some (getUniversalSelector doc el)
   \<or> getUniversalSelector doc el = buildPositionBasedSelector doc el"
  using textStrategy_cases [of doc el]
  by (auto simp: getUniversalSelector_def idStrategy_unique nameStrategy_unique
        dataAttrStrategy_unique split: option.splits)

text \<open>The two \<^verbatim>\<open>Submit\<close> buttons under \<^verbatim>\<open>Billing\<close> are both visible and receive the same
  compound selector, which is not the position-based selector of either and which the live
  query does not resolve to exactly one element.\<close>

theorem getUniversalSelector_compound_shared_by_two_elements:
  "isVisible billingSubmit \<and> isVisible billingSubmitAgain \<and> billingSubmit \<noteq> billingSubmitAgain
   \<and> getUniversalSelector checkoutDocument billingSubmit
       = getUniversalSelector checkoutDocument billingSubmitAgain
   \<and> \<not> isUnique checkoutDocument (getUniversalSelector checkoutDocument billingSubmit)
   \<and> getUniversalSelector checkoutDocument billingSubmit
       \<noteq> buildPositionBasedSelector checkoutDocument billingSubmit
   \<and> getUniversalSelector checkoutDocument billingSubmitAgain
       \<noteq> buildPositionBasedSelector checkoutDocument billingSubmitAgain"
  by code_simp

theorem getUniversalSelector_verified_or_unverified_tier_witness:
  "contextualLoop ''button'' ''Submit'' (Some billingDiv) 0
     = Some (getUniversalSelector checkoutDocument billingSubmit)"
proof -
  have not_unique: "\<not> isUnique checkoutDocument (getUniversalSelector checkoutDocument billingSubmit)"
    by code_simp
  have not_position: "getUniversalSelector checkoutDocument billingSubmit
      \<noteq> buildPositionBasedSelector checkoutDocument billingSubmit"
    by code_simp
  have tg: "toLowerCase (tagName (props billingSubmit)) = ''button''"
    by code_simp
  have direct: "getDirectText billingSubmit = ''Submit''"
    by code_simp
  have par: "parentElement billingSubmit = Some billingDiv"
    by (simp add: billingSubmit_def)
  from getUniversalSelector_verified_or_unverified_tier [of checkoutDocument billingSubmit]
    not_unique not_position
  show ?thesis
    by (simp add: tg direct par)
qed







subsection \<open>Context Extractor\<close>

lemma parentLoop_walk:
  "parentLoop t par d c =
     (case find (\<lambda>a. getDirectText a \<noteq> [] \<and> getDirectText a \<noteq> t) (take (5 - d) (ancestorChain par)) of
        None \<Rightarrow>
          c\<lparr>container_id :=
              (if container_id c \<noteq> [] then container_id c
               else firstId (take (5 - d) (ancestorChain par)))\<rparr>
      | Some a \<Rightarrow>
          c\<lparr>parent_text := getDirectText a,
            parent_tag := toLowerCase (tagName (props a)),
            parent_classes := className (props a),
            container_id :=
              (if elemId (props a) \<noteq> [] then elemId (props a)
               else if container_id c \<noteq> [] then container_id c
               else firstId (takeWhile (\<lambda>b. \<not> (getDirectText b \<noteq> [] \<and> getDirectText b \<noteq> t))
                               (take (5 - d) (ancestorChain par))))\<rparr>)"
proof (induction t par d c rule: parentLoop.induct)
  case (1 elText depth ctx)
  then show ?case by (simp add: firstId_def)
next
  case (2 elText p cs par prev depth ctx)
  show ?case
  proof (cases "depth < 5")
    case False
    then show ?thesis by (simp add: firstId_def)
  next
    case deep: True
    then obtain n where n: "5 - depth = Suc n" "5 - Suc depth = n"
      by (cases "5 - depth") auto
    show ?thesis
    proof (cases "getDirectText (Element p cs par prev) \<noteq> [] \<and> getDirectText (Element p cs par prev) \<noteq> elText")
      case True
      with deep n show ?thesis by (simp add: firstId_def)
    next
      case False
      with deep n 2 show ?thesis
        by (auto simp: firstId_def split: option.splits)
    qed
  qed
qed

lemma firstId_Nil: "firstId [] = []"
  by (simp add: firstId_def)

lemma firstId_Cons: "firstId (x # xs) = (if elemId (props x) \<noteq> [] then elemId (props x) else firstId xs)"
  by (simp add: firstId_def)

lemma firstId_append: "firstId (xs @ ys) = (if firstId xs \<noteq> [] then firstId xs else firstId ys)"
  by (induction xs) (simp_all add: firstId_Cons, simp add: firstId_def)

text \<open>
  C6 (as amended). Let \<open>visited\<close> be the first five ancestors of the element. When one of
  them has a direct text that is non-empty and differs from the element's direct text, the
  first such ancestor gives \<^verbatim>\<open>parent_text\<close>, \<^verbatim>\<open>parent_tag\<close> and \<^verbatim>\<open>parent_classes\<close>, and
  the walk ends there: \<^verbatim>\<open>container_id\<close> is the id of that ancestor when it has one, and
  otherwise the first id among the ancestors nearer than it (empty when none of them has
  one); no ancestor above it is looked at. When none of the five qualifies, the three parent
  fields are empty and \<^verbatim>\<open>container_id\<close> is the first id among the five.
\<close>

theorem extractContext_ancestor_walk:
  "let visited = take 5 (ancestors el);
       qualifies = (\<lambda>a. getDirectText a \<noteq> [] \<and> getDirectText a \<noteq> getDirectText el);
       nearer = takeWhile (\<lambda>a. \<not> qualifies a) visited;
       ctx = extractContext doc el
   in (case find qualifies visited of
         None \<Rightarrow>
           parent_text ctx = [] \<and> parent_tag ctx = [] \<and> parent_classes ctx = []
           \<and> container_id ctx = firstId visited
       | Some a \<Rightarrow>
           parent_text ctx = getDirectText a
           \<and> parent_tag ctx = toLowerCase (tagName (props a))
           \<and> parent_classes ctx = className (props a)
           \<and> container_id ctx
               = (if elemId (props a) \<noteq> [] then elemId (props a) else firstId nearer))"
  by (auto simp: Let_def extractContext_def parentLoop_walk ancestors_def emptyContext_def
        firstId_Nil split: option.splits)

text \<open>
  Two elements at which \<^verbatim>\<open>container_id\<close> is not the first ancestor id within five levels.
  The first \<^verbatim>\<open>Submit\<close> button of the checkout page: its parent qualifies and has no id, its
  grandparent has the id \<^verbatim>\<open>main\<close>; \<^verbatim>\<open>container_id\<close> is empty. The \<^verbatim>\<open>Save\<close> button of the
  settings page: its parent has the id \<^verbatim>\<open>inner\<close> and no text, its grandparent qualifies and
  has the id \<^verbatim>\<open>outer\<close>; \<^verbatim>\<open>container_id\<close> is \<^verbatim>\<open>outer\<close>.
\<close>

theorem extractContext_container_id_not_first_id:
  "container_id (extractContext checkoutDocument billingSubmit) = []
   \<and> firstId (take 5 (ancestors billingSubmit)) = ''main''
   \<and> container_id (extractContext settingsDocument saveButton) = ''outer''
   \<and> firstId (take 5 (ancestors saveButton)) = ''inner''"
  by code_simp

theorem extractContext_ancestor_walk_witness:
  "parent_text (extractContext checkoutDocument helpLink) = ''Billing''
   \<and> parent_tag (extractContext checkoutDocument helpLink) = ''div''
   \<and> parent_classes (extractContext checkoutDocument helpLink) = ''card''
   \<and> container_id (extractContext checkoutDocument helpLink) = ''actions''"
proof -
  have found: "find (\<lambda>a. getDirectText a \<noteq> [] \<and> getDirectText a \<noteq> getDirectText helpLink)
      (take 5 (ancestors helpLink)) = Some billingDiv"
    by code_simp
  have no_id: "elemId (props billingDiv) = []"
    by code_simp
  have first: "firstId (takeWhile (\<lambda>a. \<not> (getDirectText a \<noteq> [] \<and> getDirectText a \<noteq> getDirectText helpLink))
                          (take 5 (ancestors helpLink))) = ''actions''"
    by code_simp
  have billing: "getDirectText billingDiv = ''Billing''"
    "toLowerCase (tagName (props billingDiv)) = ''div''" "className (props billingDiv) = ''card''"
    by code_simp+
  from extractContext_ancestor_walk [of helpLink checkoutDocument] show ?thesis
    unfolding Let_def found option.case first billing
    using no_id by simp
qed

end
